theory Spec2Isabelle
  imports Main "HOL-Library.Word"
begin

section \<open>The pw\_rpc client: packet dispatch and call lifecycle\<close>

text \<open>
  The development embeds \<^verbatim>\<open>Client::ProcessPacket\<close> of \<^verbatim>\<open>pw_rpc/client.cc\<close>.
  The classes it calls into (\<^verbatim>\<open>Status\<close>, \<^verbatim>\<open>Packet\<close>, \<^verbatim>\<open>Channel\<close>, \<^verbatim>\<open>Call\<close>,
  \<^verbatim>\<open>Endpoint\<close>) are declared in headers outside \<^verbatim>\<open>client.cc\<close>; they are modelled
  from the design document, each under a comment that says so.
\<close>

subsection \<open>Status codes and packets\<close>

text \<open>
  Modelled from the spec: \<^verbatim>\<open>pw::Status\<close> (pw\_status) is missing. The dispatch code
  names \<^verbatim>\<open>OkStatus()\<close>, \<^verbatim>\<open>Status::Unavailable()\<close>, \<^verbatim>\<open>Status::FailedPrecondition()\<close>
  and \<^verbatim>\<open>Status::InvalidArgument()\<close>; section 6 of the spec adds "a decode-failure
  status", which like every remaining code is an \<open>OtherStatus\<close>.
\<close>

datatype Status = OkStatus | Unavailable | FailedPrecondition | InvalidArgument | OtherStatus nat

text \<open>
  Modelled from the spec: the packet types of section 3 (the enum \<^verbatim>\<open>PacketType\<close> of
  \<^verbatim>\<open>pw_rpc/internal/packet.h\<close> is missing).
\<close>

datatype PacketType =
  REQUEST | RESPONSE | CLIENT_STREAM | CLIENT_ERROR | SERVER_ERROR | SERVER_STREAM
  | CANCEL | CLIENT_REQUEST_COMPLETION

text \<open>
  Modelled from the spec: the side a packet is meant for, the \<^verbatim>\<open>expected_origin\<close> of
  section 4.1 (the enum of \<^verbatim>\<open>Packet\<close> is missing). The client passes \<^verbatim>\<open>Packet::kClient\<close>.
\<close>

datatype Destination = kServer | kClient

text \<open>
  Modelled from the spec: the decoded packet of section 3 (class \<^verbatim>\<open>Packet\<close> is
  missing). Identifiers are unsigned integers whose width plays no part in the dispatch;
  the payload is a range of bytes.
\<close>

record Packet =
  type :: PacketType
  channel_id :: nat
  service_id :: nat
  method_id :: nat
  call_id :: nat
  payload :: "8 word list"
  status :: Status

text \<open>
  \<^verbatim>\<open>Packet::ClientError(packet, status)\<close> is missing, and the spec says two things
  only about the packet it returns: it is a \<^verbatim>\<open>CLIENT_ERROR\<close> packet, and it is
  "carrying status" the given status (sections 4.3 and 8). What else it puts into the
  packet is therefore a parameter: the function that fills the remaining fields from
  the two arguments the source passes.
\<close>

type_synonym packet_builder = "Packet \<Rightarrow> Status \<Rightarrow> Packet"

text \<open>
  Modelled from the spec: the result of \<^verbatim>\<open>Packet::ClientError\<close>: whatever the builder
  makes of the inbound packet and the status, with the type and the status that
  sections 4.3 and 8 give.
\<close>

definition ClientError :: "packet_builder \<Rightarrow> Packet \<Rightarrow> Status \<Rightarrow> Packet" where
  "ClientError build packet st = (build packet st)\<lparr>type := CLIENT_ERROR, status := st\<rparr>"

text \<open>
  The wire format is outside this code (spec, section 6), so the decoder of section 4.1,
  \<^verbatim>\<open>Decode(bytes, expected_origin) -> Result<Packet, DecodeError>\<close>, is a parameter: a
  pure function of the buffer and the expected side. \<^verbatim>\<open>pw::Result\<close> holds either a
  status that is not OK (\<open>Inl\<close>) or a value (\<open>Inr\<close>).
\<close>

type_synonym decoder = "8 word list \<Rightarrow> Destination \<Rightarrow> Status + Packet"

subsection \<open>Channels, calls and the endpoint\<close>

text \<open>
  Modelled from the spec: a channel (section 3) is looked up by its id and can do one
  thing, send a packet. \<open>sent\<close> lists the packets handed to \<^verbatim>\<open>Send\<close>, oldest first.
\<close>

record Channel =
  chan_id :: nat
  sent :: "Packet list"

text \<open>
  Modelled from the spec: the per-call state machine of section 4.3,
  \<^verbatim>\<open>Pending -> {Active, Completed, Errored}\<close>, \<^verbatim>\<open>Active -> {Active, Completed, Errored}\<close>.
\<close>

datatype CallState = Pending | Active | Completed | Errored

text \<open>
  Modelled from the spec: a call object (section 3): its identity, the flag
  \<^verbatim>\<open>has_server_stream\<close> fixed at creation, and its state. Its handlers are closures
  of the application; what the model keeps of them is the record of their invocations.
\<close>

record Call =
  call_channel :: nat
  call_service :: nat
  call_method :: nat
  call_ident :: nat
  has_server_stream :: bool
  state :: CallState

text \<open>
  Modelled from the spec: a handler invocation (sections 3 and 4.3): which call object
  (by address), which handler, which arguments. The unary completion handler receives
  (payload, status), the stream completion handler the status alone, the error handler a
  status, the stream handler a payload.
\<close>

datatype Event =
  UnaryCompleted nat "8 word list" Status
  | StreamCompleted nat Status
  | OnError nat Status
  | OnNext nat "8 word list"

text \<open>
  Modelled from the spec: the endpoint of sections 3 and 4.2 (classes \<^verbatim>\<open>Endpoint\<close> and
  \<^verbatim>\<open>Client\<close> are missing) with everything \<^verbatim>\<open>ProcessPacket\<close> can touch. Call objects
  belong to the application and live at addresses (\<open>call_objs\<close>); the endpoint's
  registry \<open>calls\<close> lists the addresses of the active ones, so that a call that leaves
  the registry still has a state. \<open>invoked\<close> is the trace of handler invocations,
  oldest first.
\<close>

record Client =
  channels :: "Channel list"
  calls :: "nat list"
  call_objs :: "nat \<Rightarrow> Call"
  invoked :: "Event list"

text \<open>
  Modelled from the spec: \<^verbatim>\<open>GetChannel(channel_id) -> Channel*|null\<close> (section 4.2).
  The pointer is the position of the channel in the client's channel list.
\<close>

fun channel_index :: "Channel list \<Rightarrow> nat \<Rightarrow> nat option" where
  "channel_index [] cid = None"
| "channel_index (ch # chs) cid =
     (if chan_id ch = cid then Some 0 else map_option Suc (channel_index chs cid))"

text \<open>
  Modelled from the spec: \<^verbatim>\<open>GetInternalChannel\<close>, the same lookup on the client's own
  channels; a null pointer is \<open>None\<close>.
\<close>

definition GetInternalChannel :: "Client \<Rightarrow> nat \<Rightarrow> nat option" where
  "GetInternalChannel c cid = channel_index (channels c) cid"

text \<open>
  Modelled from the spec: \<^verbatim>\<open>Channel::Send\<close> (sections 3 and 6). The packet is handed to
  the transport of the channel at the given position; the result of the send is dropped
  by the caller (\<^verbatim>\<open>.IgnoreError()\<close>) and so is not modelled.
\<close>

definition Channel_Send :: "Client \<Rightarrow> nat \<Rightarrow> Packet \<Rightarrow> Client" where
  "Channel_Send c i packet =
     c\<lparr>channels := (channels c)
          [i := (channels c ! i)\<lparr>sent := sent (channels c ! i) @ [packet]\<rparr>]\<rparr>"

text \<open>
  Modelled from the spec: the keyed lookup of section 4.2, "a keyed search over
  (channel\_id, service\_id, method\_id, call\_id)" in the active-call set.
\<close>

definition call_key :: "Call \<Rightarrow> nat \<times> nat \<times> nat \<times> nat" where
  "call_key call = (call_channel call, call_service call, call_method call, call_ident call)"

text \<open>Modelled from the spec: the same four fields of a packet (section 3).\<close>

definition packet_key :: "Packet \<Rightarrow> nat \<times> nat \<times> nat \<times> nat" where
  "packet_key packet = (channel_id packet, service_id packet, method_id packet, call_id packet)"

text \<open>
  Modelled from the spec: the search itself, over the registry in its order; the first
  active call whose identity is the packet's, or a null pointer (\<open>None\<close>).
\<close>

definition FindCall :: "Client \<Rightarrow> Packet \<Rightarrow> nat option" where
  "FindCall c packet = find (\<lambda>r. call_key (call_objs c r) = packet_key packet) (calls c)"

text \<open>
  Modelled from the spec: \<^verbatim>\<open>Endpoint::ProcessPacket\<close> (section 4.2): decode; on failure
  return the failure without side effects; on success look the call up by identity, a
  null pointer when there is none. The second component is the out-parameter \<^verbatim>\<open>base\<close>.
\<close>

definition Endpoint_ProcessPacket ::
  "decoder \<Rightarrow> Client \<Rightarrow> 8 word list \<Rightarrow> Destination \<Rightarrow> (Status + Packet) \<times> nat option" where
  "Endpoint_ProcessPacket decode c data dest =
     (case decode data dest of
        Inl e \<Rightarrow> (Inl e, None)
      | Inr packet \<Rightarrow> (Inr packet, FindCall c packet))"

text \<open>Modelled from the spec: \<^verbatim>\<open>UnregisterCall\<close> (section 4.2) removes from the active-call set.\<close>

definition UnregisterCall :: "Client \<Rightarrow> nat \<Rightarrow> Client" where
  "UnregisterCall c r = c\<lparr>calls := removeAll r (calls c)\<rparr>"

text \<open>
  Modelled from the spec: the two effects a handler has besides unregistering: the
  transition of the call object at address \<open>r\<close> to a state of the machine of section
  4.3, and the invocation of a handler of the application.
\<close>

definition set_state :: "Client \<Rightarrow> nat \<Rightarrow> CallState \<Rightarrow> Client" where
  "set_state c r s = c\<lparr>call_objs := (call_objs c)(r := (call_objs c r)\<lparr>state := s\<rparr>)\<rparr>"

text \<open>Modelled from the spec: a handler of the application runs; the trace grows by one.\<close>

definition invoke :: "Client \<Rightarrow> Event \<Rightarrow> Client" where
  "invoke c ev = c\<lparr>invoked := invoked c @ [ev]\<rparr>"

text \<open>
  Modelled from the spec: \<^verbatim>\<open>UnaryResponseClientCall::HandleCompleted\<close> (section 4.3,
  RESPONSE): "deliver (payload, status) to the unary-completion handler"; the call
  becomes Completed and is unregistered.
\<close>

definition Unary_HandleCompleted :: "Client \<Rightarrow> nat \<Rightarrow> 8 word list \<Rightarrow> Status \<Rightarrow> Client" where
  "Unary_HandleCompleted c r pl st =
     invoke (UnregisterCall (set_state c r Completed) r) (UnaryCompleted r pl st)"

text \<open>
  Modelled from the spec: \<^verbatim>\<open>StreamResponseClientCall::HandleCompleted\<close> (section 4.3,
  RESPONSE): "deliver (status) to the stream-completion handler"; the call becomes
  Completed and is unregistered.
\<close>

definition Stream_HandleCompleted :: "Client \<Rightarrow> nat \<Rightarrow> Status \<Rightarrow> Client" where
  "Stream_HandleCompleted c r st =
     invoke (UnregisterCall (set_state c r Completed) r) (StreamCompleted r st)"

text \<open>
  Modelled from the spec: \<^verbatim>\<open>ClientCall::HandleError\<close> (section 4.3, SERVER\_ERROR):
  "deliver the status to the call's error handler, transition to Errored, unregister".
\<close>

definition HandleError :: "Client \<Rightarrow> nat \<Rightarrow> Status \<Rightarrow> Client" where
  "HandleError c r st = invoke (UnregisterCall (set_state c r Errored) r) (OnError r st)"

text \<open>
  Modelled from the spec: \<^verbatim>\<open>ClientCall::HandlePayload\<close> (section 4.3, SERVER\_STREAM):
  "deliver the payload to the stream handler"; no unregistration; the call is Active
  "after first stream payload" and stays so.
\<close>

definition HandlePayload :: "Client \<Rightarrow> nat \<Rightarrow> 8 word list \<Rightarrow> Client" where
  "HandlePayload c r pl = invoke (set_state c r Active) (OnNext r pl)"

subsection \<open>Client::ProcessPacket\<close>

text \<open>
  The switch on the packet type, for a resolved call \<open>r\<close> and the channel at position
  \<open>i\<close>. The last equation is the \<^verbatim>\<open>default\<close> label, which only logs.
\<close>

fun dispatch ::
  "packet_builder \<Rightarrow> Client \<Rightarrow> nat \<Rightarrow> nat \<Rightarrow> Packet \<Rightarrow> PacketType \<Rightarrow> Client" where
  "dispatch build c i r packet RESPONSE =
     (if has_server_stream (call_objs c r)
      then Stream_HandleCompleted c r (status packet)
      else Unary_HandleCompleted c r (payload packet) (status packet))"
| "dispatch build c i r packet SERVER_ERROR = HandleError c r (status packet)"
| "dispatch build c i r packet SERVER_STREAM =
     (if has_server_stream (call_objs c r)
      then HandlePayload c r (payload packet)
      else Channel_Send (HandleError c r InvalidArgument) i
             (ClientError build packet InvalidArgument))"
| "dispatch build c i r packet _ = c"

text \<open>
  The function itself, in the order of the source: \<^verbatim>\<open>PW_TRY\<close> returns the decode
  failure; an unregistered channel gives \<^verbatim>\<open>Unavailable\<close>; without a call, anything but
  a \<^verbatim>\<open>SERVER_ERROR\<close> is answered with a \<^verbatim>\<open>CLIENT_ERROR\<close>; otherwise the switch.
\<close>

definition ProcessPacket ::
  "packet_builder \<Rightarrow> decoder \<Rightarrow> Client \<Rightarrow> 8 word list \<Rightarrow> Status \<times> Client" where
  "ProcessPacket build decode c data =
     (case Endpoint_ProcessPacket decode c data kClient of
        (Inl st, base) \<Rightarrow> (st, c)
      | (Inr packet, base) \<Rightarrow>
          (case GetInternalChannel c (channel_id packet) of
             None \<Rightarrow> (Unavailable, c)
           | Some i \<Rightarrow>
               (case base of
                  None \<Rightarrow>
                    if type packet \<noteq> SERVER_ERROR
                    then (OkStatus,
                          Channel_Send c i (ClientError build packet FailedPrecondition))
                    else (OkStatus, c)
                | Some r \<Rightarrow> (OkStatus, dispatch build c i r packet (type packet)))))"

text \<open>
  Modelled from the spec: the receive loop around it (section 4.3, item 1), which hands
  the buffers to \<^verbatim>\<open>ProcessPacket\<close> one after the other and is not interrupted by a
  failure status.
\<close>

fun ProcessPackets ::
  "packet_builder \<Rightarrow> decoder \<Rightarrow> Client \<Rightarrow> 8 word list list \<Rightarrow> Client" where
  "ProcessPackets build decode c [] = c"
| "ProcessPackets build decode c (data # rest) =
     ProcessPackets build decode (snd (ProcessPacket build decode c data)) rest"

subsection \<open>What a run leaves behind\<close>

text \<open>
  The sends performed between a state and a later one: for every channel, the packets
  appended to it, each with the id of the channel it went out on.
\<close>

definition sent_by :: "Client \<Rightarrow> Client \<Rightarrow> (nat \<times> Packet) list" where
  "sent_by c c' =
     concat (map2 (\<lambda>old new. map (Pair (chan_id new)) (drop (length (sent old)) (sent new)))
               (channels c) (channels c'))"

text \<open>
  The completion and error handlers of the call at address \<open>r\<close>, as opposed to its
  stream handler, and how often they have fired so far.
\<close>

fun terminal_for :: "nat \<Rightarrow> Event \<Rightarrow> bool" where
  "terminal_for r (UnaryCompleted r' pl st) = (r' = r)"
| "terminal_for r (StreamCompleted r' st) = (r' = r)"
| "terminal_for r (OnError r' st) = (r' = r)"
| "terminal_for r (OnNext r' pl) = False"

definition completions :: "nat \<Rightarrow> Client \<Rightarrow> nat" where
  "completions r c = length (filter (terminal_for r) (invoked c))"

text \<open>
  Modelled from the spec: the registry invariant of sections 3 and 4.2, "no two active
  entries may share a key" (\<^verbatim>\<open>RegisterCall\<close>, which keeps it, is missing).
\<close>

definition unique_calls :: "Client \<Rightarrow> bool" where
  "unique_calls c \<longleftrightarrow>
     (\<forall>r \<in> set (calls c). \<forall>r' \<in> set (calls c).
        call_key (call_objs c r) = call_key (call_objs c r') \<longrightarrow> r = r')"

definition resolvable :: "Client \<Rightarrow> nat \<times> nat \<times> nat \<times> nat \<Rightarrow> bool" where
  "resolvable c k \<longleftrightarrow> (\<exists>r \<in> set (calls c). call_key (call_objs c r) = k)"

subsection \<open>A worked example\<close>

text \<open>
  A client with one channel (id 10) and two active calls of method 3 of service 2 on it:
  a unary call with call id 4 at address 16, and a server-streaming call with call id 5
  at address 32. \<open>unrouted_client\<close> has the same calls but no channel.
\<close>

definition unary_call :: Call where
  "unary_call = \<lparr> call_channel = 10, call_service = 2, call_method = 3, call_ident = 4,
                   has_server_stream = False, state = Pending \<rparr>"

definition stream_call :: Call where
  "stream_call = \<lparr> call_channel = 10, call_service = 2, call_method = 3, call_ident = 5,
                    has_server_stream = True, state = Active \<rparr>"

definition example_client :: Client where
  "example_client =
     \<lparr> channels = [\<lparr> chan_id = 10, sent = [] \<rparr>],
       calls = [16, 32],
       call_objs = (\<lambda>r. if r = 16 then unary_call else stream_call),
       invoked = [] \<rparr>"

definition unrouted_client :: Client where
  "unrouted_client = example_client\<lparr>channels := []\<rparr>"

text \<open>
  A small wire format for the example: the first byte is the packet type (1 a response,
  5 a server error, 7 a stream packet, anything else a cancellation), the second the call
  id, the rest the payload. Shorter buffers do not decode, and a buffer for the server is
  refused.
\<close>

definition example_type :: "8 word \<Rightarrow> PacketType" where
  "example_type t =
     (if t = 1 then RESPONSE else if t = 5 then SERVER_ERROR
      else if t = 7 then SERVER_STREAM else CANCEL)"

definition example_packet :: "8 word \<Rightarrow> nat \<Rightarrow> 8 word list \<Rightarrow> Packet" where
  "example_packet t k pl =
     \<lparr> type = example_type t, channel_id = 10, service_id = 2, method_id = 3,
       call_id = k, payload = pl, status = OkStatus \<rparr>"

fun example_decode :: decoder where
  "example_decode (t # k # pl) kClient = Inr (example_packet t (unat k) pl)"
| "example_decode (t # k # pl) kServer = Inl InvalidArgument"
| "example_decode data dest = Inl (OtherStatus 15)"

text \<open>
  For the example, a builder that copies the inbound packet and drops its payload; the
  theorems hold for every builder.
\<close>

definition example_build :: packet_builder where
  "example_build packet st = packet\<lparr>payload := []\<rparr>"

text \<open>
  The example client before any stream payload has arrived: the streaming call at
  address 32 is still Pending.
\<close>

definition fresh_client :: Client where
  "fresh_client =
     example_client\<lparr>call_objs := (\<lambda>r. if r = 16 then unary_call
                                        else stream_call\<lparr>state := Pending\<rparr>)\<rparr>"

section \<open>Properties\<close>

subsection \<open>Lookups and sends\<close>

lemma channel_index_Some:
  "channel_index chs cid = Some i \<Longrightarrow> i < length chs \<and> chan_id (chs ! i) = cid"
  by (induction chs arbitrary: i) (auto split: if_splits)

lemma GetInternalChannel_Some:
  "GetInternalChannel c cid = Some i \<Longrightarrow>
   i < length (channels c) \<and> chan_id (channels c ! i) = cid"
  unfolding GetInternalChannel_def by (rule channel_index_Some)

lemma FindCall_Some:
  "FindCall c p = Some r \<Longrightarrow> r \<in> set (calls c) \<and> call_key (call_objs c r) = packet_key p"
  by (auto simp: FindCall_def find_Some_iff)

lemma FindCall_None: "FindCall c p = None \<longleftrightarrow> \<not> resolvable c (packet_key p)"
  by (auto simp: FindCall_def find_None_iff resolvable_def)

lemma sent_none_aux:
  "concat (map2 (\<lambda>old new. map (Pair (chan_id new)) (drop (length (sent old)) (sent new)))
      chs chs) = []"
  by (induction chs) simp_all

lemma sent_one_aux:
  "i < length chs \<Longrightarrow>
   concat (map2 (\<lambda>old new. map (Pair (chan_id new)) (drop (length (sent old)) (sent new)))
      chs (chs[i := (chs ! i)\<lparr>sent := sent (chs ! i) @ [q]\<rparr>])) = [(chan_id (chs ! i), q)]"
proof (induction chs arbitrary: i)
  case Nil
  then show ?case by simp
next
  case (Cons ch chs)
  show ?case
  proof (cases i)
    case 0
    then show ?thesis by (simp add: sent_none_aux)
  next
    case (Suc j)
    with Cons show ?thesis by simp
  qed
qed

lemma sent_by_same [simp]: "channels c' = channels c \<Longrightarrow> sent_by c c' = []"
  by (simp add: sent_by_def sent_none_aux)

lemma sent_by_Send:
  "i < length (channels c) \<Longrightarrow> channels c1 = channels c \<Longrightarrow>
   sent_by c (Channel_Send c1 i q) = [(chan_id (channels c ! i), q)]"
  by (simp add: sent_by_def Channel_Send_def sent_one_aux)

subsection \<open>The handlers, field by field\<close>

lemma handler_fields [simp]:
  "channels (invoke c ev) = channels c" "calls (invoke c ev) = calls c"
  "call_objs (invoke c ev) = call_objs c" "invoked (invoke c ev) = invoked c @ [ev]"
  "channels (set_state c r s) = channels c" "calls (set_state c r s) = calls c"
  "call_objs (set_state c r s) = (call_objs c)(r := (call_objs c r)\<lparr>state := s\<rparr>)"
  "invoked (set_state c r s) = invoked c"
  "channels (UnregisterCall c r) = channels c"
  "calls (UnregisterCall c r) = removeAll r (calls c)"
  "call_objs (UnregisterCall c r) = call_objs c" "invoked (UnregisterCall c r) = invoked c"
  "calls (Channel_Send c i q) = calls c" "call_objs (Channel_Send c i q) = call_objs c"
  "invoked (Channel_Send c i q) = invoked c"
  by (simp_all add: invoke_def set_state_def UnregisterCall_def Channel_Send_def)

lemmas handler_defs =
  Unary_HandleCompleted_def Stream_HandleCompleted_def HandleError_def HandlePayload_def

lemma call_key_state [simp]: "call_key (call\<lparr>state := s\<rparr>) = call_key call"
  by (simp add: call_key_def)


subsection \<open>The four ways through ProcessPacket\<close>

lemma ProcessPacket_failure:
  "decode data kClient = Inl e \<Longrightarrow> ProcessPacket build decode c data = (e, c)"
  by (simp add: ProcessPacket_def Endpoint_ProcessPacket_def)

lemma ProcessPacket_no_channel:
  "decode data kClient = Inr p \<Longrightarrow> GetInternalChannel c (channel_id p) = None \<Longrightarrow>
   ProcessPacket build decode c data = (Unavailable, c)"
  by (simp add: ProcessPacket_def Endpoint_ProcessPacket_def)

lemma ProcessPacket_no_call:
  "decode data kClient = Inr p \<Longrightarrow> GetInternalChannel c (channel_id p) = Some i \<Longrightarrow>
   FindCall c p = None \<Longrightarrow>
   ProcessPacket build decode c data =
     (OkStatus, if type p \<noteq> SERVER_ERROR
                then Channel_Send c i (ClientError build p FailedPrecondition) else c)"
  by (simp add: ProcessPacket_def Endpoint_ProcessPacket_def)

lemma ProcessPacket_call:
  "decode data kClient = Inr p \<Longrightarrow> GetInternalChannel c (channel_id p) = Some i \<Longrightarrow>
   FindCall c p = Some r \<Longrightarrow>
   ProcessPacket build decode c data = (OkStatus, dispatch build c i r p (type p))"
  by (simp add: ProcessPacket_def Endpoint_ProcessPacket_def)

lemma ProcessPacket_cases:
  obtains (same) "snd (ProcessPacket build decode c data) = c"
  | (reply) i p where "FindCall c p = None"
      "snd (ProcessPacket build decode c data) =
         Channel_Send c i (ClientError build p FailedPrecondition)"
  | (call) i r p where "decode data kClient = Inr p" "FindCall c p = Some r"
      "GetInternalChannel c (channel_id p) = Some i"
      "snd (ProcessPacket build decode c data) = dispatch build c i r p (type p)"
proof (cases "decode data kClient")
  case (Inl e)
  then show ?thesis using same by (simp add: ProcessPacket_failure)
next
  case (Inr p)
  show ?thesis
  proof (cases "GetInternalChannel c (channel_id p)")
    case None
    with Inr show ?thesis using same by (simp add: ProcessPacket_no_channel)
  next
    case (Some i)
    show ?thesis
    proof (cases "FindCall c p")
      case None
      with Inr Some show ?thesis using same reply
        by (cases "type p = SERVER_ERROR") (simp_all add: ProcessPacket_no_call)
    next
      case (Some r)
      with Inr \<open>GetInternalChannel c (channel_id p) = Some i\<close> show ?thesis
        using call by (simp add: ProcessPacket_call)
    qed
  qed
qed

lemma dispatch_cases:
  obtains (same) "dispatch build c i r p t = c"
  | (terminal) ev where "terminal_for r ev"
      "calls (dispatch build c i r p t) = removeAll r (calls c)"
      "invoked (dispatch build c i r p t) = invoked c @ [ev]"
      "\<And>x. call_key (call_objs (dispatch build c i r p t) x) = call_key (call_objs c x)"
  | (streamed) pl where "calls (dispatch build c i r p t) = calls c"
      "invoked (dispatch build c i r p t) = invoked c @ [OnNext r pl]"
      "\<And>x. call_key (call_objs (dispatch build c i r p t) x) = call_key (call_objs c x)"
proof (cases t)
  case RESPONSE
  then show ?thesis using terminal[of "if has_server_stream (call_objs c r)
        then StreamCompleted r (status p) else UnaryCompleted r (payload p) (status p)"]
    by (simp add: handler_defs)
next
  case SERVER_ERROR
  then show ?thesis using terminal[of "OnError r (status p)"] by (simp add: handler_defs)
next
  case SERVER_STREAM
  then show ?thesis using terminal[of "OnError r InvalidArgument"] streamed[of "payload p"]
    by (cases "has_server_stream (call_objs c r)") (simp_all add: handler_defs)
qed (use same in simp_all)

subsection \<open>One packet, then many\<close>

lemma step_calls: "set (calls (snd (ProcessPacket build decode c data))) \<subseteq> set (calls c)"
proof (cases rule: ProcessPacket_cases[of build decode c data])
  case (call i r p)
  then show ?thesis by (cases rule: dispatch_cases[of build c i r p "type p"]) auto
qed auto

lemma step_key:
  "call_key (call_objs (snd (ProcessPacket build decode c data)) x) = call_key (call_objs c x)"
proof (cases rule: ProcessPacket_cases[of build decode c data])
  case (call i r p)
  then show ?thesis by (cases rule: dispatch_cases[of build c i r p "type p"]) auto
qed auto

lemma step_completions:
  "completions r (snd (ProcessPacket build decode c data)) = completions r c \<or>
   completions r (snd (ProcessPacket build decode c data)) = completions r c + 1 \<and>
   r \<in> set (calls c) \<and> r \<notin> set (calls (snd (ProcessPacket build decode c data)))"
proof (cases rule: ProcessPacket_cases[of build decode c data])
  case (call i r' p)
  from call(2) have r': "r' \<in> set (calls c)" by (simp add: FindCall_Some)
  show ?thesis
  proof (cases rule: dispatch_cases[of build c i r' p "type p"])
    case (terminal ev)
    with call r' show ?thesis
      by (cases ev) (auto simp: completions_def)
  qed (use call in \<open>auto simp: completions_def\<close>)
qed (auto simp: completions_def)

lemma run_calls: "set (calls (ProcessPackets build decode c ds)) \<subseteq> set (calls c)"
proof (induction ds arbitrary: c)
  case (Cons d ds)
  then show ?case using step_calls[of build decode c d] by fastforce
qed simp

lemma run_key: "call_key (call_objs (ProcessPackets build decode c ds) x) = call_key (call_objs c x)"
  by (induction ds arbitrary: c) (simp_all add: step_key)

lemma run_completions:
  "completions r (ProcessPackets build decode c ds)
     \<le> completions r c + (if r \<in> set (calls c) then 1 else 0)"
proof (induction ds arbitrary: c)
  case Nil
  show ?case by simp
next
  case (Cons d ds)
  let ?c1 = "snd (ProcessPacket build decode c d)"
  have ih: "completions r (ProcessPackets build decode ?c1 ds)
     \<le> completions r ?c1 + (if r \<in> set (calls ?c1) then 1 else 0)" by (rule Cons.IH)
  from step_completions[of r build decode c d] step_calls[of build decode c d] ih
  show ?case by (auto split: if_splits)
qed

lemma run_not_resolvable:
  "\<not> resolvable c k \<Longrightarrow> \<not> resolvable (ProcessPackets build decode c ds) k"
  using run_calls[of build decode c ds] by (auto simp: resolvable_def run_key)

lemma unresolved_no_handler:
  "decode data kClient = Inr p \<Longrightarrow> FindCall c p = None \<Longrightarrow>
   invoked (snd (ProcessPacket build decode c data)) = invoked c"
  by (cases rule: ProcessPacket_cases[of build decode c data]) auto

lemma terminal_step:
  assumes "decode d kClient = Inr p" "type p = RESPONSE \<or> type p = SERVER_ERROR"
    "GetInternalChannel c (channel_id p) = Some i" "FindCall c p = Some r"
  shows "completions r (snd (ProcessPacket build decode c d)) = completions r c + 1"
    and "calls (snd (ProcessPacket build decode c d)) = removeAll r (calls c)"
  using assms by (auto simp: ProcessPacket_call handler_defs completions_def)

text \<open>
  What the source fixes about the packets it sends: each is the result of
  \<^verbatim>\<open>Packet::ClientError\<close> on the inbound packet, goes out on the channel the inbound
  packet names, and has status \<open>FailedPrecondition\<close> when no call was resolved and
  \<open>InvalidArgument\<close> when a stream packet met a call without a server stream.
\<close>

lemma sends_built_from_inbound:
  assumes "decode data kClient = Inr p"
  shows "\<forall>(ch, q) \<in> set (sent_by c (snd (ProcessPacket build decode c data))).
           ch = channel_id p \<and>
           (q = ClientError build p FailedPrecondition \<and> FindCall c p = None \<and>
              type p \<noteq> SERVER_ERROR \<or>
            q = ClientError build p InvalidArgument \<and> type p = SERVER_STREAM \<and>
              (\<exists>r. FindCall c p = Some r \<and> \<not> has_server_stream (call_objs c r)))"
proof (cases "GetInternalChannel c (channel_id p)")
  case None
  with assms show ?thesis by (simp add: ProcessPacket_no_channel)
next
  case (Some i)
  note ch = GetInternalChannel_Some[OF Some]
  show ?thesis
  proof (cases "FindCall c p")
    case None
    with assms Some ch show ?thesis
      by (simp add: ProcessPacket_no_call sent_by_Send)
  next
    case (Some r)
    with assms \<open>GetInternalChannel c (channel_id p) = Some i\<close> ch show ?thesis
      by (cases "type p") (simp_all add: ProcessPacket_call handler_defs sent_by_Send)
  qed
qed

subsection \<open>The worked example, evaluated\<close>

lemmas example_defs =
  example_client_def unrouted_client_def unary_call_def stream_call_def
  example_packet_def example_type_def

lemma example_channel [simp]:
  "GetInternalChannel example_client 10 = Some 0"
  "GetInternalChannel unrouted_client 10 = None"
  by (simp_all add: GetInternalChannel_def example_defs)

lemma example_find [simp]:
  "FindCall example_client (example_packet t 4 pl) = Some 16"
  "FindCall example_client (example_packet t 5 pl) = Some 32"
  "FindCall example_client (example_packet t 9 pl) = None"
  "FindCall unrouted_client (example_packet t 4 pl) = Some 16"
  "FindCall unrouted_client (example_packet t 5 pl) = Some 32"
  "FindCall unrouted_client (example_packet t 9 pl) = None"
  by (simp_all add: FindCall_def call_key_def packet_key_def example_defs)

lemma example_decoded [simp]:
  "example_decode [t, 4] kClient = Inr (example_packet t 4 [])"
  "example_decode [t, 5, b] kClient = Inr (example_packet t 5 [b])"
  "example_decode [t, 9] kClient = Inr (example_packet t 9 [])"
  by simp_all

lemma example_packet_fields [simp]:
  "type (example_packet 1 k pl) = RESPONSE"
  "type (example_packet 5 k pl) = SERVER_ERROR"
  "type (example_packet 7 k pl) = SERVER_STREAM"
  "type (example_packet 6 k pl) = CANCEL"
  "channel_id (example_packet t k pl) = 10"
  "service_id (example_packet t k pl) = 2"
  "method_id (example_packet t k pl) = 3"
  "call_id (example_packet t k pl) = k"
  "payload (example_packet t k pl) = pl"
  "status (example_packet t k pl) = OkStatus"
  "packet_key (example_packet t k pl) = (10, 2, 3, k)"
  by (simp_all add: example_defs packet_key_def)

lemma example_client_fields [simp]:
  "\<not> has_server_stream (call_objs example_client 16)"
  "has_server_stream (call_objs example_client 32)"
  "\<not> has_server_stream (call_objs unrouted_client 16)"
  "has_server_stream (call_objs unrouted_client 32)"
  "state (call_objs unrouted_client 16) = Pending"
  "state (call_objs example_client 32) = Active"
  "calls example_client = [16, 32]" "calls unrouted_client = [16, 32]"
  "invoked example_client = []" "invoked unrouted_client = []"
  "channels unrouted_client = []"
  "channels example_client = [\<lparr> chan_id = 10, sent = [] \<rparr>]"
  by (simp_all add: example_defs)

lemma fresh_client_fields [simp]:
  "GetInternalChannel fresh_client 10 = Some 0"
  "FindCall fresh_client (example_packet t 5 pl) = Some 32"
  "has_server_stream (call_objs fresh_client 32)"
  "state (call_objs fresh_client 32) = Pending"
  "calls fresh_client = [16, 32]" "invoked fresh_client = []"
  "channels fresh_client = [\<lparr> chan_id = 10, sent = [] \<rparr>]"
  by (simp_all add: fresh_client_def GetInternalChannel_def FindCall_def call_key_def
                    packet_key_def example_defs)

lemma ClientError_fields [simp]:
  "type (ClientError build p st) = CLIENT_ERROR" "status (ClientError build p st) = st"
  by (simp_all add: ClientError_def)

lemma example_unique [simp]: "unique_calls example_client"
  by (simp add: unique_calls_def call_key_def example_defs)

section \<open>The claims\<close>

text \<open>
  C6. A buffer that does not decode: \<open>ProcessPacket\<close> returns the decoder's failure
  status and leaves the client as it was: no call object or registry entry changes, no
  handler is invoked, no packet is sent.
\<close>

theorem decode_failure_no_effect:
  "decode data kClient = Inl e \<Longrightarrow> ProcessPacket build decode c data = (e, c)"
  by (rule ProcessPacket_failure)

theorem decode_failure_no_effect_witness:
  "example_decode [] kClient = Inl (OtherStatus 15) \<and>
   ProcessPacket example_build example_decode example_client [] = (OtherStatus 15, example_client)"
  using decode_failure_no_effect
          [where build = example_build and decode = example_decode and data = "[]"
             and e = "OtherStatus 15" and c = example_client]
  by simp

text \<open>
  C7. A decoded packet whose channel id is not that of a channel of the client:
  \<open>ProcessPacket\<close> returns \<open>Unavailable\<close> and the client is as it was, so no call is
  added, removed or changed and no handler is invoked.
\<close>

theorem unknown_channel_unavailable:
  "decode data kClient = Inr p \<Longrightarrow> GetInternalChannel c (channel_id p) = None \<Longrightarrow>
   ProcessPacket build decode c data = (Unavailable, c)"
  by (rule ProcessPacket_no_channel)

theorem unknown_channel_unavailable_witness:
  "example_decode [1, 4] kClient = Inr (example_packet 1 4 []) \<and>
   GetInternalChannel unrouted_client (channel_id (example_packet 1 4 [])) = None \<and>
   ProcessPacket example_build example_decode unrouted_client [1, 4] = (Unavailable, unrouted_client)"
  using unknown_channel_unavailable
          [where build = example_build and decode = example_decode and data = "[1, 4]"
             and p = "example_packet 1 4 []" and c = unrouted_client]
  by simp

text \<open>
  C1, as amended. A decoded \<open>SERVER_ERROR\<close> packet that resolves to no active call is
  never answered: the client is as it was, so nothing is sent. The result is \<open>OkStatus\<close>
  when the packet's channel is one of the client's, and \<open>Unavailable\<close> when it is not.
\<close>

theorem unmatched_error_not_answered:
  "decode data kClient = Inr p \<Longrightarrow> type p = SERVER_ERROR \<Longrightarrow> FindCall c p = None \<Longrightarrow>
   ProcessPacket build decode c data =
     (if GetInternalChannel c (channel_id p) = None then Unavailable else OkStatus, c)"
  by (cases "GetInternalChannel c (channel_id p)")
     (simp_all add: ProcessPacket_no_channel ProcessPacket_no_call)

theorem unmatched_error_not_answered_witness:
  "example_decode [5, 9] kClient = Inr (example_packet 5 9 []) \<and>
   type (example_packet 5 9 []) = SERVER_ERROR \<and>
   FindCall example_client (example_packet 5 9 []) = None \<and>
   ProcessPacket example_build example_decode example_client [5, 9] = (OkStatus, example_client)"
  using unmatched_error_not_answered
          [where build = example_build and decode = example_decode and data = "[5, 9]"
             and p = "example_packet 5 9 []" and c = example_client]
  by simp

text \<open>
  C1 as stated promises \<open>OkStatus\<close> for every such packet. On a client that has no
  channel 10, the server error for the unknown call 9 on channel 10 is decoded, resolves
  to no call, and is turned away with \<open>Unavailable\<close>.
\<close>

theorem unmatched_error_unknown_channel_counterexample:
  "example_decode [5, 9] kClient = Inr (example_packet 5 9 []) \<and>
   type (example_packet 5 9 []) = SERVER_ERROR \<and>
   FindCall unrouted_client (example_packet 5 9 []) = None \<and>
   fst (ProcessPacket example_build example_decode unrouted_client [5, 9]) = Unavailable \<and>
   fst (ProcessPacket example_build example_decode unrouted_client [5, 9]) \<noteq> OkStatus"
  by (simp add: ProcessPacket_no_channel)

text \<open>
  C5. A decoded packet other than a \<open>SERVER_ERROR\<close>, on a channel of the client, that
  resolves to no active call: \<open>ProcessPacket\<close> returns \<open>OkStatus\<close> and sends exactly
  one packet, on that channel: a \<open>CLIENT_ERROR\<close> with status \<open>FailedPrecondition\<close>.
  Calls and handlers are not touched.
\<close>

theorem unmatched_call_notifies_peer:
  assumes "decode data kClient = Inr p" and "type p \<noteq> SERVER_ERROR"
    and "GetInternalChannel c (channel_id p) = Some i" and "FindCall c p = None"
  shows "fst (ProcessPacket build decode c data) = OkStatus \<and>
         sent_by c (snd (ProcessPacket build decode c data))
           = [(channel_id p, ClientError build p FailedPrecondition)] \<and>
         type (ClientError build p FailedPrecondition) = CLIENT_ERROR \<and>
         status (ClientError build p FailedPrecondition) = FailedPrecondition \<and>
         calls (snd (ProcessPacket build decode c data)) = calls c \<and>
         call_objs (snd (ProcessPacket build decode c data)) = call_objs c \<and>
         invoked (snd (ProcessPacket build decode c data)) = invoked c"
  using assms GetInternalChannel_Some[OF assms(3)]
  by (simp add: ProcessPacket_no_call sent_by_Send ClientError_def)

theorem unmatched_call_notifies_peer_witness:
  "example_decode [1, 9] kClient = Inr (example_packet 1 9 []) \<and>
   type (example_packet 1 9 []) \<noteq> SERVER_ERROR \<and>
   GetInternalChannel example_client (channel_id (example_packet 1 9 [])) = Some 0 \<and>
   FindCall example_client (example_packet 1 9 []) = None \<and>
   fst (ProcessPacket example_build example_decode example_client [1, 9]) = OkStatus \<and>
   sent_by example_client (snd (ProcessPacket example_build example_decode example_client [1, 9]))
     = [(10, ClientError example_build (example_packet 1 9 []) FailedPrecondition)]"
  using unmatched_call_notifies_peer
          [where build = example_build and decode = example_decode and data = "[1, 9]"
             and p = "example_packet 1 9 []" and c = example_client and i = 0]
  by simp

text \<open>
  C9. A decoded packet on a channel of the client that resolves to an active call but is
  neither a \<open>RESPONSE\<close>, a \<open>SERVER_ERROR\<close> nor a \<open>SERVER_STREAM\<close>: \<open>ProcessPacket\<close>
  returns \<open>OkStatus\<close> and the client (calls, registry, channels, handler trace) is as
  it was.
\<close>

theorem other_type_ignored:
  assumes "decode data kClient = Inr p"
    and "GetInternalChannel c (channel_id p) = Some i" and "FindCall c p = Some r"
    and "type p \<noteq> RESPONSE" and "type p \<noteq> SERVER_ERROR" and "type p \<noteq> SERVER_STREAM"
  shows "ProcessPacket build decode c data = (OkStatus, c)"
  using assms by (cases "type p") (simp_all add: ProcessPacket_call)

theorem other_type_ignored_witness:
  "example_decode [6, 4] kClient = Inr (example_packet 6 4 []) \<and>
   GetInternalChannel example_client (channel_id (example_packet 6 4 [])) = Some 0 \<and>
   FindCall example_client (example_packet 6 4 []) = Some 16 \<and>
   type (example_packet 6 4 []) = CANCEL \<and>
   ProcessPacket example_build example_decode example_client [6, 4] = (OkStatus, example_client)"
  using other_type_ignored
          [where build = example_build and decode = example_decode and data = "[6, 4]"
             and p = "example_packet 6 4 []" and c = example_client and i = 0 and r = 16]
  by simp

text \<open>
  C3, as amended. A decoded \<open>RESPONSE\<close> packet on a channel of the client that resolves
  to the active call \<open>r\<close>: exactly one handler invocation is added, the unary completion
  handler with the packet's (payload, status) when the call has no server stream, the
  stream completion handler with the packet's status alone when it has one; the call is
  then Completed and no longer in the registry.
\<close>

theorem response_completes_call:
  assumes "decode data kClient = Inr p" and "type p = RESPONSE"
    and "GetInternalChannel c (channel_id p) = Some i" and "FindCall c p = Some r"
  shows "invoked (snd (ProcessPacket build decode c data)) =
           invoked c @ [if has_server_stream (call_objs c r)
                        then StreamCompleted r (status p)
                        else UnaryCompleted r (payload p) (status p)] \<and>
         state (call_objs (snd (ProcessPacket build decode c data)) r) = Completed \<and>
         r \<in> set (calls c) \<and>
         calls (snd (ProcessPacket build decode c data)) = removeAll r (calls c) \<and>
         r \<notin> set (calls (snd (ProcessPacket build decode c data)))"
  using assms FindCall_Some[OF assms(4)]
  by (simp add: ProcessPacket_call handler_defs)

theorem response_completes_call_witness:
  "example_decode [1, 4] kClient = Inr (example_packet 1 4 []) \<and>
   type (example_packet 1 4 []) = RESPONSE \<and>
   GetInternalChannel example_client (channel_id (example_packet 1 4 [])) = Some 0 \<and>
   FindCall example_client (example_packet 1 4 []) = Some 16 \<and>
   invoked (snd (ProcessPacket example_build example_decode example_client [1, 4]))
     = [UnaryCompleted 16 [] OkStatus] \<and>
   state (call_objs (snd (ProcessPacket example_build example_decode example_client [1, 4])) 16)
     = Completed \<and>
   calls (snd (ProcessPacket example_build example_decode example_client [1, 4])) = [32]"
  using response_completes_call
          [where build = example_build and decode = example_decode and data = "[1, 4]"
             and p = "example_packet 1 4 []" and c = example_client and i = 0 and r = 16]
  by simp

text \<open>
  C3 as stated covers every \<open>RESPONSE\<close> that resolves to an active call. On the client
  without channels the response for the unary call at address 16 resolves to that call,
  yet \<open>ProcessPacket\<close> returns \<open>Unavailable\<close> before the switch: no handler is
  invoked, the call is still Pending and still registered.
\<close>

theorem response_unknown_channel_counterexample:
  "example_decode [1, 4] kClient = Inr (example_packet 1 4 []) \<and>
   type (example_packet 1 4 []) = RESPONSE \<and>
   FindCall unrouted_client (example_packet 1 4 []) = Some 16 \<and>
   \<not> has_server_stream (call_objs unrouted_client 16) \<and>
   fst (ProcessPacket example_build example_decode unrouted_client [1, 4]) = Unavailable \<and>
   invoked (snd (ProcessPacket example_build example_decode unrouted_client [1, 4])) = [] \<and>
   state (call_objs (snd (ProcessPacket example_build example_decode unrouted_client [1, 4])) 16)
     = Pending \<and>
   16 \<in> set (calls (snd (ProcessPacket example_build example_decode unrouted_client [1, 4])))"
  by (simp add: ProcessPacket_no_channel)

text \<open>
  C4, as amended. A decoded \<open>SERVER_STREAM\<close> packet on a channel of the client that
  resolves to an active call \<open>r\<close> without a server stream: exactly one handler
  invocation is added, the error handler of \<open>r\<close> with \<open>InvalidArgument\<close>; the call is
  then Errored and no longer in the registry; and exactly one packet is sent, on that
  channel: a \<open>CLIENT_ERROR\<close> with status \<open>InvalidArgument\<close>.
\<close>

theorem stream_mismatch_errors_call:
  assumes "decode data kClient = Inr p" and "type p = SERVER_STREAM"
    and "GetInternalChannel c (channel_id p) = Some i" and "FindCall c p = Some r"
    and "\<not> has_server_stream (call_objs c r)"
  shows "invoked (snd (ProcessPacket build decode c data)) = invoked c @ [OnError r InvalidArgument] \<and>
         state (call_objs (snd (ProcessPacket build decode c data)) r) = Errored \<and>
         r \<notin> set (calls (snd (ProcessPacket build decode c data))) \<and>
         sent_by c (snd (ProcessPacket build decode c data))
           = [(channel_id p, ClientError build p InvalidArgument)] \<and>
         type (ClientError build p InvalidArgument) = CLIENT_ERROR \<and>
         status (ClientError build p InvalidArgument) = InvalidArgument"
  using assms GetInternalChannel_Some[OF assms(3)]
  by (simp add: ProcessPacket_call handler_defs sent_by_Send ClientError_def)

theorem stream_mismatch_errors_call_witness:
  "example_decode [7, 4] kClient = Inr (example_packet 7 4 []) \<and>
   type (example_packet 7 4 []) = SERVER_STREAM \<and>
   GetInternalChannel example_client (channel_id (example_packet 7 4 [])) = Some 0 \<and>
   FindCall example_client (example_packet 7 4 []) = Some 16 \<and>
   \<not> has_server_stream (call_objs example_client 16) \<and>
   invoked (snd (ProcessPacket example_build example_decode example_client [7, 4]))
     = [OnError 16 InvalidArgument] \<and>
   state (call_objs (snd (ProcessPacket example_build example_decode example_client [7, 4])) 16)
     = Errored \<and>
   16 \<notin> set (calls (snd (ProcessPacket example_build example_decode example_client [7, 4]))) \<and>
   sent_by example_client (snd (ProcessPacket example_build example_decode example_client [7, 4]))
     = [(10, ClientError example_build (example_packet 7 4 []) InvalidArgument)]"
  using stream_mismatch_errors_call
          [where build = example_build and decode = example_decode and data = "[7, 4]"
             and p = "example_packet 7 4 []" and c = example_client and i = 0 and r = 16]
  by simp

text \<open>
  C4 as stated covers every such \<open>SERVER_STREAM\<close> packet. On the client without
  channels the stream packet for the unary call at address 16 resolves to that call, yet
  \<open>ProcessPacket\<close> returns \<open>Unavailable\<close>: no error is delivered, the call stays
  registered, and there is no channel to send on.
\<close>

theorem stream_mismatch_unknown_channel_counterexample:
  "example_decode [7, 4] kClient = Inr (example_packet 7 4 []) \<and>
   type (example_packet 7 4 []) = SERVER_STREAM \<and>
   FindCall unrouted_client (example_packet 7 4 []) = Some 16 \<and>
   \<not> has_server_stream (call_objs unrouted_client 16) \<and>
   fst (ProcessPacket example_build example_decode unrouted_client [7, 4]) = Unavailable \<and>
   invoked (snd (ProcessPacket example_build example_decode unrouted_client [7, 4])) = [] \<and>
   16 \<in> set (calls (snd (ProcessPacket example_build example_decode unrouted_client [7, 4]))) \<and>
   sent_by unrouted_client (snd (ProcessPacket example_build example_decode unrouted_client [7, 4])) = []"
  by (simp add: ProcessPacket_no_channel)




text \<open>
  C2. Over any sequence of processed buffers, the completion and error handlers of a
  call fire at most once more. And with a registry that has no two calls of one identity:
  once a \<open>RESPONSE\<close> or \<open>SERVER_ERROR\<close> on a channel of the client has resolved to the
  call \<open>r\<close>, its completion or error handler has fired and \<open>r\<close> has left the registry;
  after any further buffers \<open>ds\<close>, a packet of the same identity resolves to no call,
  and processing it invokes no handler.
\<close>

theorem completion_at_most_once:
  "completions r (ProcessPackets build decode c ds) \<le> completions r c + 1 \<and>
   (unique_calls c \<and> decode d kClient = Inr p \<and>
    (type p = RESPONSE \<or> type p = SERVER_ERROR) \<and>
    GetInternalChannel c (channel_id p) \<noteq> None \<and> FindCall c p = Some r \<and>
    decode d' kClient = Inr p' \<and> packet_key p' = packet_key p \<longrightarrow>
      completions r (snd (ProcessPacket build decode c d)) = completions r c + 1 \<and>
      r \<notin> set (calls (snd (ProcessPacket build decode c d))) \<and>
      FindCall (ProcessPackets build decode (snd (ProcessPacket build decode c d)) ds) p' = None \<and>
      invoked (snd (ProcessPacket build decode
                 (ProcessPackets build decode (snd (ProcessPacket build decode c d)) ds) d')) =
        invoked (ProcessPackets build decode (snd (ProcessPacket build decode c d)) ds))"
proof (intro conjI impI)
  show "completions r (ProcessPackets build decode c ds) \<le> completions r c + 1"
    using run_completions[of r build decode c ds] by (simp split: if_splits)
next
  assume a: "unique_calls c \<and> decode d kClient = Inr p \<and>
    (type p = RESPONSE \<or> type p = SERVER_ERROR) \<and>
    GetInternalChannel c (channel_id p) \<noteq> None \<and> FindCall c p = Some r \<and>
    decode d' kClient = Inr p' \<and> packet_key p' = packet_key p"
  let ?c1 = "snd (ProcessPacket build decode c d)"
  let ?c2 = "ProcessPackets build decode ?c1 ds"
  from a obtain i where i: "GetInternalChannel c (channel_id p) = Some i" by auto
  from a i have t: "completions r ?c1 = completions r c + 1" "calls ?c1 = removeAll r (calls c)"
    using terminal_step[of decode d p c i r build] by auto
  from a have "FindCall c p = Some r" by simp
  then have r: "r \<in> set (calls c)" "call_key (call_objs c r) = packet_key p"
    by (simp_all add: FindCall_Some)
  have "\<not> resolvable ?c1 (packet_key p)"
  proof
    assume "resolvable ?c1 (packet_key p)"
    then obtain x where x: "x \<in> set (calls ?c1)" "call_key (call_objs ?c1 x) = packet_key p"
      by (auto simp: resolvable_def)
    from x t have "x \<in> set (calls c)" "x \<noteq> r" by auto
    moreover from x have "call_key (call_objs c x) = call_key (call_objs c r)"
      by (simp add: step_key r)
    ultimately show False using a r by (auto simp: unique_calls_def)
  qed
  then have "\<not> resolvable ?c2 (packet_key p')" using a by (simp add: run_not_resolvable)
  then have f: "FindCall ?c2 p' = None" by (simp add: FindCall_None)
  show "completions r ?c1 = completions r c + 1" by (rule t)
  show "r \<notin> set (calls ?c1)" using t by simp
  show "FindCall ?c2 p' = None" by (rule f)
  show "invoked (snd (ProcessPacket build decode ?c2 d')) = invoked ?c2"
    using a f by (simp add: unresolved_no_handler)
qed

text \<open>
  The example: a response completes the unary call; a stream payload for the other call
  follows; a second response of the same identity then finds no call and reaches no
  handler. Over the three buffers the unary call's completion fires once.
\<close>

theorem completion_at_most_once_witness:
  "unique_calls example_client \<and>
   example_decode [1, 4] kClient = Inr (example_packet 1 4 []) \<and>
   type (example_packet 1 4 []) = RESPONSE \<and>
   GetInternalChannel example_client (channel_id (example_packet 1 4 [])) \<noteq> None \<and>
   FindCall example_client (example_packet 1 4 []) = Some 16 \<and>
   completions 16 (ProcessPackets example_build example_decode example_client [[7, 5, 97]])
     \<le> completions 16 example_client + 1 \<and>
   completions 16 (snd (ProcessPacket example_build example_decode example_client [1, 4])) = 1 \<and>
   16 \<notin> set (calls (snd (ProcessPacket example_build example_decode example_client [1, 4]))) \<and>
   FindCall (ProcessPackets example_build example_decode
               (snd (ProcessPacket example_build example_decode example_client [1, 4])) [[7, 5, 97]])
     (example_packet 1 4 []) = None \<and>
   invoked (snd (ProcessPacket example_build example_decode
                   (ProcessPackets example_build example_decode
                      (snd (ProcessPacket example_build example_decode example_client [1, 4]))
                      [[7, 5, 97]])
                   [1, 4])) =
     invoked (ProcessPackets example_build example_decode
                (snd (ProcessPacket example_build example_decode example_client [1, 4])) [[7, 5, 97]])"
  using completion_at_most_once
          [where r = 16 and build = example_build and decode = example_decode
             and c = example_client and ds = "[[7, 5, 97]]" and d = "[1, 4]"
             and p = "example_packet 1 4 []" and d' = "[1, 4]"
             and p' = "example_packet 1 4 []"]
  by (simp add: completions_def)

end
